theory Spec2Isabelle
  imports Main "HOL-Library.Word"
begin

section \<open>Values of the JavaScript runtime\<close>

text \<open>
  A \<^verbatim>\<open>Buffer\<close> (or \<^verbatim>\<open>Uint8Array\<close>) is a list of bytes. A thrown value is either an
  \<^verbatim>\<open>Error\<close> object, identified by its message, or \<^verbatim>\<open>undefined\<close> (the reason of a bare
  \<^verbatim>\<open>reject()\<close>). A promise is pending, resolved with a value, or rejected with a reason; an
  \<^verbatim>\<open>async\<close> function that never returns is the pending promise.
\<close>

type_synonym byte = "8 word"
type_synonym Buffer = "byte list"

datatype js_error = Error string | Undefined

datatype 'a promise = Pending | Resolved 'a | Rejected js_error

text \<open>Truthiness of an optional string: \<^verbatim>\<open>undefined\<close> and the empty string are falsy.\<close>

fun truthy_string :: "string option \<Rightarrow> string option" where
  "truthy_string None = None"
| "truthy_string (Some s) = (if s = [] then None else Some s)"

section \<open>Calls to the external collaborators\<close>

text \<open>
  The destination directory (\<^verbatim>\<open>getDestination\<close> of the cloud SDK) and the HTTP transport
  (\<^verbatim>\<open>executeHttpRequest\<close>) are not part of the repository. They are parameters of the model, and
  every call to one of them is recorded, in order, next to the promise an asynchronous function
  returns.
\<close>

record HttpDestination =
  dest_url :: string
  dest_authentication :: "string option"
  dest_username :: "string option"
  dest_password :: "string option"

record HttpRequestConfig =
  req_method :: string
  req_url :: string
  req_responseType :: "string option"
  req_data :: "Buffer option"
  req_headers :: "(string \<times> string) list"

datatype call =
  GetDestination string
| ExecuteHttpRequest "HttpDestination option" HttpRequestConfig

type_synonym 'a async = "'a promise \<times> call list"

definition resolved :: "'a \<Rightarrow> 'a async" where
  "resolved x = (Resolved x, [])"

definition throw :: "js_error \<Rightarrow> 'a async" where
  "throw e = (Rejected e, [])"

text \<open>\<^verbatim>\<open>await m\<close> followed by the rest of the function body.\<close>

definition await :: "'a async \<Rightarrow> ('a \<Rightarrow> 'b async) \<Rightarrow> 'b async" where
  "await m f =
     (case m of
        (Resolved x, cs) \<Rightarrow> (case f x of (r, cs') \<Rightarrow> (r, cs @ cs'))
      | (Pending, cs) \<Rightarrow> (Pending, cs)
      | (Rejected e, cs) \<Rightarrow> (Rejected e, cs))"

text \<open>\<^verbatim>\<open>m.catch(h)\<close>: the handler runs on a rejection only.\<close>

definition catch :: "'a async \<Rightarrow> (js_error \<Rightarrow> 'a async) \<Rightarrow> 'a async" where
  "catch m h =
     (case m of
        (Rejected e, cs) \<Rightarrow> (case h e of (r, cs') \<Rightarrow> (r, cs @ cs'))
      | (Resolved x, cs) \<Rightarrow> (Resolved x, cs)
      | (Pending, cs) \<Rightarrow> (Pending, cs))"

section \<open>Node.js streams\<close>

text \<open>
  A readable stream is the sequence of events it has yet to emit. Data flows out of it once: what
  has been emitted is gone, and \<open>endEmitted\<close> records that its \<^verbatim>\<open>end\<close> event has fired.
\<close>

datatype stream_event = DataEv Buffer | EndEv | ErrorEv js_error

record Readable =
  pending :: "stream_event list"
  endEmitted :: bool

definition new_Readable :: Readable where
  "new_Readable = \<lparr>pending = [], endEmitted = False\<rparr>"

text \<open>\<^verbatim>\<open>stream.push(chunk)\<close>; \<^verbatim>\<open>null\<close> is the end-of-stream sentinel, an empty chunk is dropped.\<close>

fun push :: "Buffer option \<Rightarrow> Readable \<Rightarrow> Readable" where
  "push None stream = stream\<lparr>pending := pending stream @ [EndEv]\<rparr>"
| "push (Some chunk) stream =
     (if chunk = [] then stream else stream\<lparr>pending := pending stream @ [DataEv chunk]\<rparr>)"

record Writable =
  written :: "Buffer list"
  ended :: bool

definition write_chunk :: "Buffer \<Rightarrow> 'a Writable_scheme \<Rightarrow> 'a Writable_scheme" where
  "write_chunk chunk dest = (if ended dest then dest else dest\<lparr>written := written dest @ [chunk]\<rparr>)"

definition end_stream :: "'a Writable_scheme \<Rightarrow> 'a Writable_scheme" where
  "end_stream dest = dest\<lparr>ended := True\<rparr>"

text \<open>
  The flow of a piped source: every chunk is written to the destination, the \<^verbatim>\<open>end\<close> of the
  source ends the destination, and an error of the source stops the flow without touching the
  destination. The boolean tells whether the source reached its end.
\<close>

fun flow :: "stream_event list \<Rightarrow> 'a Writable_scheme \<Rightarrow> bool \<times> 'a Writable_scheme" where
  "flow [] dest = (False, dest)"
| "flow (DataEv chunk # es) dest = flow es (write_chunk chunk dest)"
| "flow (EndEv # es) dest = (True, end_stream dest)"
| "flow (ErrorEv e # es) dest = (False, dest)"

text \<open>
  \<^verbatim>\<open>src.pipe(dest)\<close>, run until the source is silent. A source whose \<^verbatim>\<open>end\<close> has already been
  emitted has no data left and only ends the destination.
\<close>

definition pipe :: "Readable \<Rightarrow> 'a Writable_scheme \<Rightarrow> Readable \<times> 'a Writable_scheme" where
  "pipe src dest =
     (if endEmitted src then (src, end_stream dest)
      else case flow (pending src) dest of
             (e, dest') \<Rightarrow> (\<lparr>pending = [], endEmitted = e\<rparr>, dest'))"

text \<open>
  A \<^verbatim>\<open>PassThrough\<close> relay emits each chunk written to it as a \<^verbatim>\<open>data\<close> event and, once ended,
  its \<^verbatim>\<open>end\<close> event.
\<close>

definition new_PassThrough :: Writable where
  "new_PassThrough = \<lparr>written = [], ended = False\<rparr>"

definition PassThrough_events :: "Writable \<Rightarrow> stream_event list" where
  "PassThrough_events stream =
     map DataEv (written stream) @ (if ended stream then [EndEv] else [])"

text \<open>
  What a consumer reads from a stream: the bytes delivered to it, whether the stream told it that
  it ended, and the stream as the reading leaves it.
\<close>

definition read_stream :: "Readable \<Rightarrow> Buffer \<times> bool \<times> Readable" where
  "read_stream src =
     (case pipe src new_PassThrough of
        (src', sink) \<Rightarrow> (concat (written sink), ended sink, src'))"

section \<open>Configuration and HTTP types\<close>

datatype service_kind = odata | odatav4 | odatav2 | rest

record Credentials =
  url :: "string option"
  authentication :: "string option"
  username :: "string option"
  password :: "string option"
  forwardAuthToken :: "bool option"
  destination :: "string option"

record ExternalServiceConfig =
  kind :: service_kind
  model :: "string option"
  credentials :: "Credentials option"

record HttpResponse =
  status :: int
  headers :: "string \<rightharpoonup> string"
  data :: Readable

record MediaReadResult =
  media_value :: Readable
  mediaContentType :: string

text \<open>
  The hosting framework's response object: a writable stream that also records the calls of
  \<^verbatim>\<open>setHeader\<close> (the value is absent when the caller passes \<^verbatim>\<open>undefined\<close>). The request object
  carries it as \<^verbatim>\<open>req.res\<close>.
\<close>

record ServerResponse = Writable +
  headers_set :: "(string \<times> string option) list"

definition setHeader :: "string \<Rightarrow> string option \<Rightarrow> ServerResponse \<Rightarrow> ServerResponse" where
  "setHeader name v r = r\<lparr>headers_set := headers_set r @ [(name, v)]\<rparr>"

record Request =
  res :: ServerResponse

text \<open>
  The environment of a call: the \<^verbatim>\<open>requires\<close> section of the process-wide configuration, the
  destination directory (which may yield \<^verbatim>\<open>null\<close>) and the HTTP transport.
\<close>

record env =
  requires :: "string \<rightharpoonup> ExternalServiceConfig"
  getDestination :: "string \<Rightarrow> HttpDestination option promise"
  executeHttpRequest :: "HttpDestination option \<Rightarrow> HttpRequestConfig \<Rightarrow> HttpResponse promise"

section \<open>utils.ts\<close>

definition ERR_NO_CONFIG :: string where
  "ERR_NO_CONFIG = ''Failed to find requested external service in config''"

definition ERR_INVALID_LOCAL_AUTH :: string where
  "ERR_INVALID_LOCAL_AUTH = ''Unsupported local authentication style''"

definition ERR_NO_VALID_URL :: string where
  "ERR_NO_VALID_URL = ''Invalid URL provided in service config''"

definition BASIC_AUTH :: string where
  "BASIC_AUTH = ''BasicAuthentication''"

abbreviation ConfigurationError :: js_error where
  "ConfigurationError \<equiv> Error ERR_NO_CONFIG"

abbreviation AuthenticationError :: js_error where
  "AuthenticationError \<equiv> Error ERR_INVALID_LOCAL_AUTH"

abbreviation UrlError :: js_error where
  "UrlError \<equiv> Error ERR_NO_VALID_URL"

text \<open>
  \<^verbatim>\<open>dependencies[externalService]\<close> is a property lookup on an object. An own property, an entry
  of the configuration, wins. A name that the configuration does not have is looked up on the
  prototype of the object, and the members of \<^verbatim>\<open>Object.prototype\<close> are functions or, for
  \<^verbatim>\<open>__proto__\<close>, the prototype itself: truthy values that have no \<^verbatim>\<open>credentials\<close>. Every other
  name gives \<^verbatim>\<open>undefined\<close>.
\<close>

definition Object_prototype_names :: "string list" where
  "Object_prototype_names =
     [''constructor'', ''__proto__'', ''hasOwnProperty'', ''isPrototypeOf'',
      ''propertyIsEnumerable'', ''toLocaleString'', ''toString'', ''valueOf'',
      ''__defineGetter__'', ''__defineSetter__'', ''__lookupGetter__'', ''__lookupSetter__'']"

datatype property = Own ExternalServiceConfig | Inherited

definition get_property :: "(string \<rightharpoonup> ExternalServiceConfig) \<Rightarrow> string \<Rightarrow> property option" where
  "get_property dependencies name =
     (case dependencies name of
        Some cfg \<Rightarrow> Some (Own cfg)
      | None \<Rightarrow> if name \<in> set Object_prototype_names then Some Inherited else None)"

fun property_credentials :: "property \<Rightarrow> Credentials option" where
  "property_credentials (Own cfg) = credentials cfg"
| "property_credentials Inherited = None"

definition loadRemoteDestination :: "env \<Rightarrow> string \<Rightarrow> HttpDestination option async" where
  "loadRemoteDestination env dest_name =
     await (getDestination env dest_name, [GetDestination dest_name])
       (\<lambda>remoteDestination. resolved remoteDestination)"

definition getDestinationInformation :: "env \<Rightarrow> string \<Rightarrow> HttpDestination option async" where
  "getDestinationInformation env externalService =
     (case get_property (requires env) externalService of
        None \<Rightarrow> throw (Error ERR_NO_CONFIG)
      | Some extCfg \<Rightarrow>
          (case truthy_string (Option.bind (property_credentials extCfg) destination) of
             Some dest_name \<Rightarrow> loadRemoteDestination env dest_name
           | None \<Rightarrow>
               if Option.bind (property_credentials extCfg) authentication \<noteq> Some BASIC_AUTH
               then throw (Error ERR_INVALID_LOCAL_AUTH)
               else (case truthy_string (Option.bind (property_credentials extCfg) url) of
                       None \<Rightarrow> throw (Error ERR_NO_VALID_URL)
                     | Some u \<Rightarrow>
                         resolved
                           (Some \<lparr>dest_url = u,
                                   dest_authentication = Some BASIC_AUTH,
                                   dest_username =
                                     Option.bind (property_credentials extCfg) username,
                                   dest_password =
                                     Option.bind (property_credentials extCfg) password\<rparr>))))"

definition formatMediaResult :: "Buffer \<Rightarrow> string \<Rightarrow> MediaReadResult" where
  "formatMediaResult buf mimetype =
     (let stream = new_Readable;
          stream = push (Some buf) stream;
          stream = push None stream
      in \<lparr>media_value = stream, mediaContentType = mimetype\<rparr>)"

text \<open>
  The three listeners that \<open>processHttpPassthrough\<close> registers on its relay, and the promise they
  settle. \<^verbatim>\<open>resolve\<close> and \<^verbatim>\<open>reject\<close> act on a pending promise only.
\<close>

record drain_state =
  chunks :: "Buffer list"
  settled :: "Buffer promise"

definition resolve :: "Buffer \<Rightarrow> drain_state \<Rightarrow> drain_state" where
  "resolve buf s = (case settled s of Pending \<Rightarrow> s\<lparr>settled := Resolved buf\<rparr> | _ \<Rightarrow> s)"

definition reject :: "js_error \<Rightarrow> drain_state \<Rightarrow> drain_state" where
  "reject e s = (case settled s of Pending \<Rightarrow> s\<lparr>settled := Rejected e\<rparr> | _ \<Rightarrow> s)"

fun listener :: "stream_event \<Rightarrow> drain_state \<Rightarrow> drain_state" where
  "listener (DataEv chunk) s = s\<lparr>chunks := chunks s @ [chunk]\<rparr>"
| "listener EndEv s = resolve (concat (chunks s)) s"
| "listener (ErrorEv e) s = reject Undefined s"

definition relay_promise :: "stream_event list \<Rightarrow> Buffer promise" where
  "relay_promise events = settled (fold listener events \<lparr>chunks = [], settled = Pending\<rparr>)"

text \<open>
  \<open>processHttpPassthrough\<close> pipes the data stream of the response into a fresh relay. The
  response is returned next to the promise, with its data stream as the pipe left it.
\<close>

definition processHttpPassthrough :: "HttpResponse \<Rightarrow> Buffer promise \<times> HttpResponse" where
  "processHttpPassthrough httpResponse =
     (case pipe (data httpResponse) new_PassThrough of
        (data', stream) \<Rightarrow>
          (relay_promise (PassThrough_events stream), httpResponse\<lparr>data := data'\<rparr>))"

section \<open>stream.ts\<close>

definition STREAM_HTTP_SEND_METHOD :: string where
  "STREAM_HTTP_SEND_METHOD = ''PUT''"

definition STREAM_HTTP_FETCH_METHOD :: string where
  "STREAM_HTTP_FETCH_METHOD = ''GET''"

definition CONTENT_DISPOSITION :: string where
  "CONTENT_DISPOSITION = ''Content-Disposition''"

definition OUTBOUND_CONTENT_TYPE :: string where
  "OUTBOUND_CONTENT_TYPE = ''Content-Type''"

definition INBOUND_CONTENT_TYPE :: string where
  "INBOUND_CONTENT_TYPE = ''content-type''"

definition ERR_FETCH_FAILED :: string where
  "ERR_FETCH_FAILED = ''Failed to handle proxy stream to remote service''"

definition ERR_SEND_FAILED :: string where
  "ERR_SEND_FAILED = ''Failed to stream data to remote service''"

definition ERR_STREAM_REJECTED :: string where
  "ERR_STREAM_REJECTED = ''External service rejected the incoming stream''"

definition ERR_DESTINATION_RETRIEVAL :: string where
  "ERR_DESTINATION_RETRIEVAL = ''Failed to find destination information to send request''"

definition STREAM_RESPONSE_TYPE :: string where
  "STREAM_RESPONSE_TYPE = ''stream''"

abbreviation FetchFailedError :: js_error where
  "FetchFailedError \<equiv> Error ERR_FETCH_FAILED"

abbreviation SendFailedError :: js_error where
  "SendFailedError \<equiv> Error ERR_SEND_FAILED"

abbreviation StreamRejectedError :: js_error where
  "StreamRejectedError \<equiv> Error ERR_STREAM_REJECTED"

abbreviation DestinationRetrievalError :: js_error where
  "DestinationRetrievalError \<equiv> Error ERR_DESTINATION_RETRIEVAL"

definition fetch_requestConfig :: "string \<Rightarrow> HttpRequestConfig" where
  "fetch_requestConfig uri =
     \<lparr>req_method = STREAM_HTTP_FETCH_METHOD, req_url = uri,
      req_responseType = Some STREAM_RESPONSE_TYPE, req_data = None, req_headers = []\<rparr>"

definition send_requestConfig :: "string \<Rightarrow> string \<Rightarrow> Buffer \<Rightarrow> HttpRequestConfig" where
  "send_requestConfig uri fileType buf =
     \<lparr>req_method = STREAM_HTTP_SEND_METHOD, req_url = uri,
      req_responseType = None, req_data = Some buf,
      req_headers = [(''Content-Type'', fileType)]\<rparr>"

definition streamMediaFromRemote :: "env \<Rightarrow> string \<Rightarrow> string \<Rightarrow> HttpResponse async" where
  "streamMediaFromRemote env uri externalService =
     await (catch (getDestinationInformation env externalService)
              (\<lambda>_. throw (Error ERR_DESTINATION_RETRIEVAL)))
       (\<lambda>destinationInfo.
          let requestConfig = fetch_requestConfig uri
          in catch (executeHttpRequest env destinationInfo requestConfig,
                    [ExecuteHttpRequest destinationInfo requestConfig])
               (\<lambda>_. throw (Error ERR_FETCH_FAILED)))"

definition streamMediaToRemoteService ::
  "env \<Rightarrow> string \<Rightarrow> string \<Rightarrow> Buffer \<Rightarrow> string \<Rightarrow> unit async" where
  "streamMediaToRemoteService env uri fileType buf externalService =
     await (catch (getDestinationInformation env externalService)
              (\<lambda>_. throw (Error ERR_DESTINATION_RETRIEVAL)))
       (\<lambda>destinationInfo.
          let requestConfig = send_requestConfig uri fileType buf
          in await (catch (executeHttpRequest env destinationInfo requestConfig,
                           [ExecuteHttpRequest destinationInfo requestConfig])
                      (\<lambda>_. throw (Error ERR_SEND_FAILED)))
               (\<lambda>response.
                  if status response < 200 \<or> status response \<ge> 300
                  then throw (Error ERR_STREAM_REJECTED)
                  else resolved ()))"

definition streamMediaFromRemoteServiceDirectProxy ::
  "env \<Rightarrow> string \<Rightarrow> string \<Rightarrow> Request \<Rightarrow> Request async" where
  "streamMediaFromRemoteServiceDirectProxy env uri externalService req =
     await (streamMediaFromRemote env uri externalService)
       (\<lambda>response.
          let r = setHeader OUTBOUND_CONTENT_TYPE (headers response INBOUND_CONTENT_TYPE) (res req)
          in case pipe (data response) r of
               (data', r) \<Rightarrow> resolved (req\<lparr>res := r\<rparr>))"

definition streamMediaFromRemoteThroughPipe ::
  "env \<Rightarrow> string \<Rightarrow> string \<Rightarrow> Request \<Rightarrow> string option \<Rightarrow> Request async" where
  "streamMediaFromRemoteThroughPipe env uri externalService req filename =
     await (streamMediaFromRemote env uri externalService)
       (\<lambda>response.
          case processHttpPassthrough response of
            (drained, response) \<Rightarrow>
              await (drained, [])
                (\<lambda>_.
                   let r = setHeader OUTBOUND_CONTENT_TYPE
                             (headers response INBOUND_CONTENT_TYPE) (res req);
                       r = (case truthy_string filename of
                              Some name \<Rightarrow>
                                setHeader CONTENT_DISPOSITION (Some (''filename='' @ name)) r
                            | None \<Rightarrow> r)
                   in case pipe (data response) r of
                        (data', r) \<Rightarrow> resolved (req\<lparr>res := r\<rparr>)))"

definition streamMediaFromRemoteServiceToBuffer :: "env \<Rightarrow> string \<Rightarrow> string \<Rightarrow> Buffer async" where
  "streamMediaFromRemoteServiceToBuffer env uri externalService =
     await (streamMediaFromRemote env uri externalService)
       (\<lambda>response. (fst (processHttpPassthrough response), []))"

section \<open>A concrete environment\<close>

text \<open>
  A configuration with one service of each shape, a directory that fails for one destination name
  and yields \<^verbatim>\<open>null\<close> for every other, and a transport whose behaviour depends on the requested
  path. It is the input of the concrete instances below.
\<close>

definition remote_credentials :: "string \<Rightarrow> Credentials" where
  "remote_credentials d =
     \<lparr>url = None, authentication = None, username = None, password = None,
      forwardAuthToken = None, destination = Some d\<rparr>"

definition inline_credentials :: "string \<Rightarrow> string \<Rightarrow> Credentials" where
  "inline_credentials auth u =
     \<lparr>url = Some u, authentication = Some auth, username = Some ''alice'',
      password = Some ''secret'', forwardAuthToken = None, destination = None\<rparr>"

definition service :: "Credentials \<Rightarrow> ExternalServiceConfig" where
  "service c = \<lparr>kind = odata, model = None, credentials = Some c\<rparr>"

definition example_requires :: "string \<rightharpoonup> ExternalServiceConfig" where
  "example_requires =
     [''PriceAPI'' \<mapsto> service (remote_credentials ''priceDest''),
      ''GhostAPI'' \<mapsto> service (remote_credentials ''ghostDest''),
      ''MediaAPI'' \<mapsto> service (inline_credentials ''BasicAuthentication'' ''http://media.example''),
      ''TokenAPI'' \<mapsto> service (inline_credentials ''OAuth2ClientCredentials'' []),
      ''NoUrlAPI'' \<mapsto> service (inline_credentials ''BasicAuthentication'' [])]"

definition example_getDestination :: "string \<Rightarrow> HttpDestination option promise" where
  "example_getDestination name =
     (if name = ''priceDest'' then Rejected (Error ''destination lookup failed'')
      else Resolved None)"

definition example_response :: "int \<Rightarrow> HttpResponse" where
  "example_response code =
     \<lparr>status = code, headers = [''content-type'' \<mapsto> ''image/png''],
      data = \<lparr>pending = [DataEv [1, 2], DataEv [3], EndEv], endEmitted = False\<rparr>\<rparr>"

definition example_executeHttpRequest ::
  "HttpDestination option \<Rightarrow> HttpRequestConfig \<Rightarrow> HttpResponse promise" where
  "example_executeHttpRequest dest cfg =
     (if req_url cfg = ''/unreachable'' then Rejected (Error ''connect ECONNREFUSED'')
      else if req_url cfg = ''/missing'' then Resolved (example_response 404)
      else if req_method cfg = ''PUT'' then Resolved (example_response 204)
      else Resolved (example_response 200))"

definition example_env :: env where
  "example_env =
     \<lparr>requires = example_requires, getDestination = example_getDestination,
      executeHttpRequest = example_executeHttpRequest\<rparr>"

definition example_req :: Request where
  "example_req = \<lparr>res = \<lparr>written = [], ended = False, headers_set = []\<rparr>\<rparr>"

section \<open>Stream lemmas\<close>

lemma fold_listener_data:
  "fold listener (map DataEv cs) s = s\<lparr>chunks := chunks s @ cs\<rparr>"
  by (induction cs arbitrary: s) simp_all

lemma settled_stays:
  "settled s \<noteq> Pending \<Longrightarrow> settled (fold listener es s) = settled s"
proof (induction es arbitrary: s)
  case Nil
  then show ?case by simp
next
  case (Cons ev es)
  have "settled (listener ev s) = settled s"
    using Cons.prems by (cases ev; cases "settled s") (simp_all add: resolve_def reject_def)
  with Cons show ?case by simp
qed

lemma relay_promise_end:
  "relay_promise (map DataEv cs @ EndEv # later) = Resolved (concat cs)"
  by (simp add: relay_promise_def fold_listener_data settled_stays resolve_def)

lemma relay_promise_error:
  "relay_promise (map DataEv cs @ ErrorEv e # later) = Rejected Undefined"
  by (simp add: relay_promise_def fold_listener_data settled_stays reject_def)

lemma flow_data:
  "\<not> ended dest \<Longrightarrow>
   flow (map DataEv cs @ es) dest = flow es (dest\<lparr>written := written dest @ cs\<rparr>)"
  by (induction cs arbitrary: dest) (simp_all add: write_chunk_def)

lemma pipe_to_end:
  assumes "\<not> endEmitted src" and "pending src = map DataEv cs @ EndEv # later"
    and "\<not> ended dest"
  shows "pipe src dest =
           (\<lparr>pending = [], endEmitted = True\<rparr>,
            dest\<lparr>written := written dest @ cs, ended := True\<rparr>)"
  using assms by (simp add: pipe_def flow_data end_stream_def)

lemma processHttpPassthrough_end:
  assumes "\<not> endEmitted (data r)" and "pending (data r) = map DataEv cs @ EndEv # later"
  shows "processHttpPassthrough r =
           (Resolved (concat cs), r\<lparr>data := \<lparr>pending = [], endEmitted = True\<rparr>\<rparr>)"
proof -
  have "pipe (data r) new_PassThrough =
          (\<lparr>pending = [], endEmitted = True\<rparr>, \<lparr>written = cs, ended = True\<rparr>)"
    using pipe_to_end [OF assms, of new_PassThrough] by (simp add: new_PassThrough_def)
  then show ?thesis
    using relay_promise_end [of cs "[]"]
    by (simp add: processHttpPassthrough_def PassThrough_events_def)
qed

lemma relay_promise_open:
  "relay_promise (map DataEv cs) = Pending"
  by (simp add: relay_promise_def fold_listener_data)

lemma flow_not_ended:
  "flow es dest = (False, dest') \<Longrightarrow> ended dest' = ended dest"
  by (induction es dest rule: flow.induct)
    (auto simp: write_chunk_def end_stream_def split: if_splits)

text \<open>Once the drain has resolved, the data stream of the response has emitted its end.\<close>

lemma drained_data:
  assumes "processHttpPassthrough response = (Resolved buf, response')"
  shows "endEmitted (data response')"
proof (cases "endEmitted (data response)")
  case True
  with assms show ?thesis
    by (auto simp: processHttpPassthrough_def pipe_def)
next
  case False
  obtain e stream where f: "flow (pending (data response)) new_PassThrough = (e, stream)"
    by (cases "flow (pending (data response)) new_PassThrough")
  show ?thesis
  proof (cases e)
    case True
    with assms False f show ?thesis
      by (auto simp: processHttpPassthrough_def pipe_def)
  next
    case e: False
    then have "\<not> ended stream"
      using flow_not_ended [of "pending (data response)" new_PassThrough stream] f
      by (simp add: new_PassThrough_def)
    then have "relay_promise (PassThrough_events stream) = Pending"
      by (simp add: PassThrough_events_def relay_promise_open)
    with assms False f show ?thesis
      by (simp add: processHttpPassthrough_def pipe_def)
  qed
qed

section \<open>Evaluation of the concrete environment\<close>

lemma example_MediaAPI:
  "getDestinationInformation example_env ''MediaAPI'' =
     (Resolved (Some \<lparr>dest_url = ''http://media.example'',
                       dest_authentication = Some ''BasicAuthentication'',
                       dest_username = Some ''alice'', dest_password = Some ''secret''\<rparr>), [])"
  by (simp add: getDestinationInformation_def get_property_def resolved_def example_env_def example_requires_def
      service_def inline_credentials_def BASIC_AUTH_def)

lemma example_fetch_file:
  "streamMediaFromRemote example_env ''/file'' ''MediaAPI'' =
     (Resolved (example_response 200),
      [ExecuteHttpRequest
         (Some \<lparr>dest_url = ''http://media.example'',
                 dest_authentication = Some ''BasicAuthentication'',
                 dest_username = Some ''alice'', dest_password = Some ''secret''\<rparr>)
         (fetch_requestConfig ''/file'')])"
proof -
  have "executeHttpRequest example_env d (fetch_requestConfig ''/file'') =
          Resolved (example_response 200)" for d
    by (simp add: example_env_def example_executeHttpRequest_def fetch_requestConfig_def
        STREAM_HTTP_FETCH_METHOD_def)
  then show ?thesis
    by (simp add: streamMediaFromRemote_def example_MediaAPI await_def catch_def)
qed

lemma example_drain:
  "processHttpPassthrough (example_response 200) =
     (Resolved [1, 2, 3], (example_response 200)\<lparr>data := \<lparr>pending = [], endEmitted = True\<rparr>\<rparr>)"
  using processHttpPassthrough_end [of "example_response 200" "[[1, 2], [3]]" "[]"]
  by (simp add: example_response_def)

section \<open>Destination resolution\<close>

text \<open>
  A name that the configuration does not have and that \<^verbatim>\<open>Object.prototype\<close> does not have either
  fails with the configuration error, and no collaborator is called.
\<close>

lemma getDestinationInformation_not_found:
  assumes "requires env externalService = None"
    and "externalService \<notin> set Object_prototype_names"
  shows "getDestinationInformation env externalService = (Rejected ConfigurationError, [])"
  using assms by (simp add: getDestinationInformation_def get_property_def throw_def)

text \<open>
  A name that the configuration does not have and that \<^verbatim>\<open>Object.prototype\<close> has passes the test
  for a missing configuration and fails at the test of the authentication.
\<close>

lemma getDestinationInformation_inherited:
  assumes "requires env externalService = None"
    and "externalService \<in> set Object_prototype_names"
  shows "getDestinationInformation env externalService = (Rejected AuthenticationError, [])"
  using assms by (simp add: getDestinationInformation_def get_property_def throw_def)

text \<open>
  Claim C6, evaluated. The claim is that for every service name that is absent from the
  configuration, resolution fails with the configuration error and calls no collaborator. The
  name \<open>constructor\<close> is absent from the configuration; resolution calls no collaborator, and
  the error it fails with is the authentication error, not the configuration error.
\<close>

theorem getDestinationInformation_constructor:
  "requires example_env ''constructor'' = None \<and>
   getDestinationInformation example_env ''constructor'' = (Rejected AuthenticationError, []) \<and>
   getDestinationInformation example_env ''constructor'' \<noteq> (Rejected ConfigurationError, [])"
proof -
  have h: "requires example_env ''constructor'' = None"
    by (simp add: example_env_def example_requires_def)
  have m: "''constructor'' \<in> set Object_prototype_names"
    by (simp add: Object_prototype_names_def)
  have n: "AuthenticationError \<noteq> ConfigurationError"
    by (simp add: ERR_INVALID_LOCAL_AUTH_def ERR_NO_CONFIG_def)
  show ?thesis
    using h n getDestinationInformation_inherited [OF h m] by simp
qed

text \<open>
  Claim C7. For every configuration that is present and names no remote destination (the
  destination is absent or empty), invalid inline credentials are classified in this order: an
  authentication other than the basic-authentication constant \<open>BASIC_AUTH\<close> fails with the
  authentication error, whatever the URL is; otherwise, with basic authentication and an absent
  or empty URL, resolution fails with the URL error. Neither path calls a collaborator.
\<close>

theorem getDestinationInformation_invalid_inline:
  assumes "requires env externalService = Some extCfg"
    and "truthy_string (Option.bind (credentials extCfg) destination) = None"
  shows "(Option.bind (credentials extCfg) authentication \<noteq> Some BASIC_AUTH \<longrightarrow>
            getDestinationInformation env externalService = (Rejected AuthenticationError, []))
       \<and> (Option.bind (credentials extCfg) authentication = Some BASIC_AUTH \<and>
            truthy_string (Option.bind (credentials extCfg) url) = None \<longrightarrow>
            getDestinationInformation env externalService = (Rejected UrlError, []))"
  using assms by (simp add: getDestinationInformation_def get_property_def throw_def)

text \<open>
  The service \<open>TokenAPI\<close> has another authentication and an empty URL: the authentication error
  wins. The service \<open>NoUrlAPI\<close> has basic authentication and an empty URL.
\<close>

theorem getDestinationInformation_invalid_inline_witness:
  "getDestinationInformation example_env ''TokenAPI'' = (Rejected AuthenticationError, []) \<and>
   getDestinationInformation example_env ''NoUrlAPI'' = (Rejected UrlError, [])"
proof -
  have a: "requires example_env ''TokenAPI'' =
             Some (service (inline_credentials ''OAuth2ClientCredentials'' []))"
    by (simp add: example_env_def example_requires_def)
  have b: "requires example_env ''NoUrlAPI'' =
             Some (service (inline_credentials ''BasicAuthentication'' []))"
    by (simp add: example_env_def example_requires_def)
  have c: "truthy_string (Option.bind (credentials (service (inline_credentials auth u)))
             destination) = None" for auth u
    by (simp add: service_def inline_credentials_def)
  show ?thesis
    using getDestinationInformation_invalid_inline [OF a c]
      getDestinationInformation_invalid_inline [OF b c]
    by (simp add: service_def inline_credentials_def BASIC_AUTH_def)
qed

text \<open>
  Claim C5, as amended. For every valid inline configuration (no remote destination, the
  authentication equal to the constant \<open>BASIC_AUTH\<close>, a non-empty URL), resolution returns
  exactly the URL, the authentication \<^verbatim>\<open>"BasicAuthentication"\<close>, the user name and the password,
  with URL, user name and password copied from the configuration, and calls no collaborator.
\<close>

theorem getDestinationInformation_inline:
  assumes "requires env externalService = Some extCfg"
    and "credentials extCfg = Some c"
    and "truthy_string (destination c) = None"
    and "authentication c = Some BASIC_AUTH"
    and "url c = Some u" and "u \<noteq> []"
  shows "getDestinationInformation env externalService =
           (Resolved (Some \<lparr>dest_url = u, dest_authentication = Some ''BasicAuthentication'',
                             dest_username = username c, dest_password = password c\<rparr>), [])"
  using assms by (simp add: getDestinationInformation_def get_property_def resolved_def BASIC_AUTH_def)

theorem getDestinationInformation_inline_witness:
  "getDestinationInformation example_env ''MediaAPI'' =
     (Resolved (Some \<lparr>dest_url = ''http://media.example'',
                       dest_authentication = Some ''BasicAuthentication'',
                       dest_username = Some ''alice'', dest_password = Some ''secret''\<rparr>), [])"
  using getDestinationInformation_inline [of example_env "''MediaAPI''"
      "service (inline_credentials ''BasicAuthentication'' ''http://media.example'')"
      "inline_credentials ''BasicAuthentication'' ''http://media.example''"
      "''http://media.example''"]
  by (simp add: example_env_def example_requires_def service_def inline_credentials_def
      BASIC_AUTH_def)

text \<open>
  The claim as it is written names the authentication \<^verbatim>\<open>"Basic"\<close>. The service \<open>MediaAPI\<close> is a
  valid inline configuration, and what resolution returns for it is not the descriptor with
  that authentication.
\<close>

theorem inline_authentication_not_Basic:
  "requires example_env ''MediaAPI'' =
     Some (service (inline_credentials BASIC_AUTH ''http://media.example'')) \<and>
   fst (getDestinationInformation example_env ''MediaAPI'') \<noteq>
     Resolved (Some \<lparr>dest_url = ''http://media.example'', dest_authentication = Some ''Basic'',
                      dest_username = Some ''alice'', dest_password = Some ''secret''\<rparr>)"
  by (simp add: getDestinationInformation_def get_property_def resolved_def example_env_def example_requires_def
      service_def inline_credentials_def BASIC_AUTH_def)

text \<open>
  Claim C3, as amended. For every service configured with a non-empty remote destination name,
  resolution delegates to the destination directory: its only call is one lookup of that name.
  When the lookup fails, \<open>getDestinationInformation\<close> rejects with the error of the directory,
  unchanged; the fetch and the send adapter, which call it, reject with the
  destination-retrieval error.
\<close>

theorem getDestinationInformation_remote:
  assumes "requires env externalService = Some extCfg"
    and "credentials extCfg = Some c"
    and "destination c = Some d" and "d \<noteq> []"
  shows "snd (getDestinationInformation env externalService) = [GetDestination d]
       \<and> (getDestination env d = Rejected e \<longrightarrow>
            fst (getDestinationInformation env externalService) = Rejected e
          \<and> fst (streamMediaFromRemote env uri externalService) =
              Rejected DestinationRetrievalError
          \<and> fst (streamMediaToRemoteService env uri fileType buf externalService) =
              Rejected DestinationRetrievalError)"
proof -
  have g: "getDestinationInformation env externalService =
             await (getDestination env d, [GetDestination d]) resolved"
    using assms by (simp add: getDestinationInformation_def get_property_def loadRemoteDestination_def)
  show ?thesis
    by (cases "getDestination env d")
      (simp_all add: g streamMediaFromRemote_def streamMediaToRemoteService_def
        await_def catch_def throw_def resolved_def)
qed

theorem getDestinationInformation_remote_witness:
  "snd (getDestinationInformation example_env ''PriceAPI'') = [GetDestination ''priceDest''] \<and>
   fst (getDestinationInformation example_env ''PriceAPI'') =
     Rejected (Error ''destination lookup failed'') \<and>
   fst (streamMediaFromRemote example_env ''/file'' ''PriceAPI'') =
     Rejected DestinationRetrievalError \<and>
   fst (streamMediaToRemoteService example_env ''/file'' ''image/png'' [1, 2, 3] ''PriceAPI'') =
     Rejected DestinationRetrievalError"
proof -
  have r: "requires example_env ''PriceAPI'' = Some (service (remote_credentials ''priceDest''))"
    by (simp add: example_env_def example_requires_def)
  have c: "credentials (service (remote_credentials ''priceDest'')) =
             Some (remote_credentials ''priceDest'')"
    by (simp add: service_def)
  have d: "destination (remote_credentials ''priceDest'') = Some ''priceDest''"
    by (simp add: remote_credentials_def)
  have n: "''priceDest'' \<noteq> []" by simp
  have f: "getDestination example_env ''priceDest'' =
             Rejected (Error ''destination lookup failed'')"
    by (simp add: example_env_def example_getDestination_def)
  show ?thesis
    using getDestinationInformation_remote [OF r c d n,
        of "Error ''destination lookup failed''" "''/file''" "''image/png''" "[1, 2, 3]"] f
    by simp
qed

text \<open>
  The scenario of the claim as it is written: \<open>PriceAPI\<close> is configured with the destination
  \<open>priceDest\<close>, the lookup of \<open>priceDest\<close> fails, and the rejection of
  \<open>getDestinationInformation\<close> is not the destination-retrieval error.
\<close>

theorem remote_lookup_error_unwrapped:
  "requires example_env ''PriceAPI'' = Some (service (remote_credentials ''priceDest'')) \<and>
   getDestination example_env ''priceDest'' = Rejected (Error ''destination lookup failed'') \<and>
   fst (getDestinationInformation example_env ''PriceAPI'') \<noteq> Rejected DestinationRetrievalError"
  by (simp add: getDestinationInformation_def get_property_def loadRemoteDestination_def await_def
      example_env_def example_requires_def example_getDestination_def service_def
      remote_credentials_def ERR_DESTINATION_RETRIEVAL_def)

text \<open>
  Claim C10. If the lookup in the destination directory completes without throwing and yields no
  destination (\<^verbatim>\<open>null\<close>), \<open>getDestinationInformation\<close> resolves with that absent value: the
  result of the lookup is passed through without validation.
\<close>

theorem getDestinationInformation_null_destination:
  assumes "requires env externalService = Some extCfg"
    and "credentials extCfg = Some c"
    and "destination c = Some d" and "d \<noteq> []"
    and "getDestination env d = Resolved None"
  shows "getDestinationInformation env externalService = (Resolved None, [GetDestination d])"
  using assms
  by (simp add: getDestinationInformation_def get_property_def loadRemoteDestination_def await_def resolved_def)

theorem getDestinationInformation_null_destination_witness:
  "getDestinationInformation example_env ''GhostAPI'' =
     (Resolved None, [GetDestination ''ghostDest''])"
  using getDestinationInformation_null_destination [of example_env "''GhostAPI''"
      "service (remote_credentials ''ghostDest'')" "remote_credentials ''ghostDest''"
      "''ghostDest''"]
  by (simp add: example_env_def example_requires_def service_def remote_credentials_def
      example_getDestination_def)

section \<open>The fetch and send adapters\<close>

text \<open>
  Claim C4. For every call of \<open>streamMediaFromRemote\<close>: any failure of destination resolution
  is re-raised as the destination-retrieval error; any failure of the transport call is
  re-raised as the fetch-failed error; and a response returned by the transport is returned to
  the caller as it is, whatever its HTTP status.
\<close>

theorem streamMediaFromRemote_outcomes:
  "(fst (getDestinationInformation env externalService) = Rejected e \<longrightarrow>
      fst (streamMediaFromRemote env uri externalService) = Rejected DestinationRetrievalError)
 \<and> (fst (getDestinationInformation env externalService) = Resolved destinationInfo \<and>
      executeHttpRequest env destinationInfo (fetch_requestConfig uri) = Rejected e' \<longrightarrow>
      fst (streamMediaFromRemote env uri externalService) = Rejected FetchFailedError)
 \<and> (fst (getDestinationInformation env externalService) = Resolved destinationInfo \<and>
      executeHttpRequest env destinationInfo (fetch_requestConfig uri) = Resolved response \<longrightarrow>
      fst (streamMediaFromRemote env uri externalService) = Resolved response)"
  by (cases "getDestinationInformation env externalService")
    (simp add: streamMediaFromRemote_def await_def catch_def throw_def)

text \<open>
  An unknown service, an unreachable host, and a response with status 404, which is returned as
  a success.
\<close>

theorem streamMediaFromRemote_outcomes_witness:
  "fst (streamMediaFromRemote example_env ''/file'' ''UnknownAPI'') =
     Rejected DestinationRetrievalError \<and>
   fst (streamMediaFromRemote example_env ''/unreachable'' ''MediaAPI'') =
     Rejected FetchFailedError \<and>
   fst (streamMediaFromRemote example_env ''/missing'' ''MediaAPI'') =
     Resolved (example_response 404) \<and>
   status (example_response 404) = 404"
proof -
  let ?d = "Some \<lparr>dest_url = ''http://media.example'',
                   dest_authentication = Some ''BasicAuthentication'',
                   dest_username = Some ''alice'', dest_password = Some ''secret''\<rparr>"
  have u: "fst (getDestinationInformation example_env ''UnknownAPI'') = Rejected ConfigurationError"
    by (simp add: getDestinationInformation_def get_property_def Object_prototype_names_def
        throw_def example_env_def example_requires_def)
  have g: "fst (getDestinationInformation example_env ''MediaAPI'') = Resolved ?d"
    by (simp add: example_MediaAPI)
  have t1: "executeHttpRequest example_env ?d (fetch_requestConfig ''/unreachable'') =
              Rejected (Error ''connect ECONNREFUSED'')"
    by (simp add: example_env_def example_executeHttpRequest_def fetch_requestConfig_def)
  have t2: "executeHttpRequest example_env ?d (fetch_requestConfig ''/missing'') =
              Resolved (example_response 404)"
    by (simp add: example_env_def example_executeHttpRequest_def fetch_requestConfig_def)
  have s: "status (example_response 404) = 404"
    by (simp add: example_response_def)
  show ?thesis
    using streamMediaFromRemote_outcomes [of example_env "''UnknownAPI''" ConfigurationError
        "''/file''" ?d "Error ''connect ECONNREFUSED''" "example_response 404"]
      streamMediaFromRemote_outcomes [of example_env "''MediaAPI''" ConfigurationError
        "''/unreachable''" ?d "Error ''connect ECONNREFUSED''" "example_response 404"]
      streamMediaFromRemote_outcomes [of example_env "''MediaAPI''" ConfigurationError
        "''/missing''" ?d "Error ''connect ECONNREFUSED''" "example_response 404"]
    by (simp add: u g t1 t2 s)
qed

text \<open>
  Claim C2. For every call of \<open>streamMediaToRemoteService\<close> that reaches the transport (the
  destination has been resolved): if the transport call throws, the call fails with the
  send-failed error; if the transport returns a response whose status is outside the range from
  200 up to but not including 300, it fails with the stream-rejected error; and if the status is
  in that range, it returns with no error.
\<close>

theorem streamMediaToRemoteService_outcomes:
  assumes "fst (getDestinationInformation env externalService) = Resolved destinationInfo"
  shows "(executeHttpRequest env destinationInfo (send_requestConfig uri fileType buf) =
              Rejected e \<longrightarrow>
            fst (streamMediaToRemoteService env uri fileType buf externalService) =
              Rejected SendFailedError)
       \<and> (executeHttpRequest env destinationInfo (send_requestConfig uri fileType buf) =
              Resolved response \<and> (status response < 200 \<or> 300 \<le> status response) \<longrightarrow>
            fst (streamMediaToRemoteService env uri fileType buf externalService) =
              Rejected StreamRejectedError)
       \<and> (executeHttpRequest env destinationInfo (send_requestConfig uri fileType buf) =
              Resolved response \<and> 200 \<le> status response \<and> status response < 300 \<longrightarrow>
            fst (streamMediaToRemoteService env uri fileType buf externalService) = Resolved ())"
proof -
  obtain cs where g:
    "getDestinationInformation env externalService = (Resolved destinationInfo, cs)"
    using assms by (cases "getDestinationInformation env externalService") simp
  show ?thesis
    by (simp add: streamMediaToRemoteService_def g await_def catch_def throw_def resolved_def)
qed

text \<open>A connection failure, a status 404 and a status 204.\<close>

theorem streamMediaToRemoteService_outcomes_witness:
  "fst (streamMediaToRemoteService example_env ''/unreachable'' ''image/png'' [1, 2, 3]
          ''MediaAPI'') = Rejected SendFailedError \<and>
   fst (streamMediaToRemoteService example_env ''/missing'' ''image/png'' [1, 2, 3]
          ''MediaAPI'') = Rejected StreamRejectedError \<and>
   fst (streamMediaToRemoteService example_env ''/file'' ''image/png'' [1, 2, 3]
          ''MediaAPI'') = Resolved () \<and>
   SendFailedError \<noteq> StreamRejectedError"
proof -
  let ?d = "Some \<lparr>dest_url = ''http://media.example'',
                   dest_authentication = Some ''BasicAuthentication'',
                   dest_username = Some ''alice'', dest_password = Some ''secret''\<rparr>"
  have g: "fst (getDestinationInformation example_env ''MediaAPI'') = Resolved ?d"
    by (simp add: example_MediaAPI)
  have t1: "executeHttpRequest example_env ?d
              (send_requestConfig ''/unreachable'' ''image/png'' [1, 2, 3]) =
              Rejected (Error ''connect ECONNREFUSED'')"
    by (simp add: example_env_def example_executeHttpRequest_def send_requestConfig_def)
  have t2: "executeHttpRequest example_env ?d
              (send_requestConfig ''/missing'' ''image/png'' [1, 2, 3]) =
              Resolved (example_response 404)"
    by (simp add: example_env_def example_executeHttpRequest_def send_requestConfig_def)
  have t3: "executeHttpRequest example_env ?d
              (send_requestConfig ''/file'' ''image/png'' [1, 2, 3]) =
              Resolved (example_response 204)"
    by (simp add: example_env_def example_executeHttpRequest_def send_requestConfig_def
        STREAM_HTTP_SEND_METHOD_def)
  have s: "status (example_response code) = code" for code
    by (simp add: example_response_def)
  have n: "SendFailedError \<noteq> StreamRejectedError"
    by (simp add: ERR_SEND_FAILED_def ERR_STREAM_REJECTED_def)
  show ?thesis
    using streamMediaToRemoteService_outcomes [OF g, of "''/unreachable''" "''image/png''"
        "[1, 2, 3]" "Error ''connect ECONNREFUSED''" "example_response 404"]
      streamMediaToRemoteService_outcomes [OF g, of "''/missing''" "''image/png''"
        "[1, 2, 3]" "Error ''connect ECONNREFUSED''" "example_response 404"]
      streamMediaToRemoteService_outcomes [OF g, of "''/file''" "''image/png''"
        "[1, 2, 3]" "Error ''connect ECONNREFUSED''" "example_response 204"] n
    by (simp add: t1 t2 t3 s)
qed

section \<open>Draining and re-exposing a stream\<close>

text \<open>
  The relay emits what the pipe wrote to it and, if the pipe ended it, its end: the promise of
  the drain is resolved when the relay has ended and pending otherwise. It is never rejected.
\<close>

lemma relay_promise_PassThrough:
  "relay_promise (PassThrough_events stream) =
     (if ended stream then Resolved (concat (written stream)) else Pending)"
  using relay_promise_end [of "written stream" "[]"] relay_promise_open [of "written stream"]
  by (simp add: PassThrough_events_def)

lemma processHttpPassthrough_never_rejects:
  "fst (processHttpPassthrough httpResponse) \<noteq> Rejected e"
  by (simp add: processHttpPassthrough_def relay_promise_PassThrough split: prod.splits)

text \<open>
  A response whose stream emits the chunks \<open>cs\<close> and then ends is drained to the concatenation
  of the chunks, however the bytes are split into chunks.
\<close>

lemma processHttpPassthrough_chunks:
  assumes "\<not> endEmitted (data httpResponse)"
    and "pending (data httpResponse) = map DataEv cs @ EndEv # later"
    and "concat cs = bs"
  shows "fst (processHttpPassthrough httpResponse) = Resolved bs"
  using processHttpPassthrough_end [OF assms(1,2)] assms(3) by simp

text \<open>
  A response whose stream fails before its end: the pipe does not pass the error on to the
  relay, the relay stays open, and the promise is never settled.
\<close>

lemma processHttpPassthrough_source_error:
  assumes "\<not> endEmitted (data httpResponse)"
    and "pending (data httpResponse) = map DataEv cs @ ErrorEv e # later"
  shows "fst (processHttpPassthrough httpResponse) = Pending"
proof -
  have "flow (pending (data httpResponse)) new_PassThrough =
          (False, \<lparr>written = cs, ended = False\<rparr>)"
    using flow_data [of new_PassThrough cs "ErrorEv e # later"] assms(2)
    by (simp add: new_PassThrough_def)
  then have "pipe (data httpResponse) new_PassThrough =
               (\<lparr>pending = [], endEmitted = False\<rparr>, \<lparr>written = cs, ended = False\<rparr>)"
    using assms(1) by (simp add: pipe_def)
  then show ?thesis
    by (simp add: processHttpPassthrough_def relay_promise_PassThrough)
qed

text \<open>
  Claim C8, evaluated. The claim is that \<open>processHttpPassthrough\<close> resolves with the
  concatenation of the chunks of the response and that on a stream error it rejects. The stream
  of this response emits the chunk 1, 2 and then fails: the promise is left pending, it is not
  rejected. The same bytes followed by the end are drained to the buffer 1, 2.
\<close>

theorem processHttpPassthrough_error_pending:
  "fst (processHttpPassthrough
          ((example_response 200)\<lparr>data := \<lparr>pending = [DataEv [1, 2],
                                                         ErrorEv (Error ''socket hang up'')],
                                             endEmitted = False\<rparr>\<rparr>)) = Pending \<and>
   fst (processHttpPassthrough
          ((example_response 200)\<lparr>data := \<lparr>pending = [DataEv [1, 2], EndEv],
                                             endEmitted = False\<rparr>\<rparr>)) = Resolved [1, 2]"
  using processHttpPassthrough_source_error [of
      "(example_response 200)\<lparr>data := \<lparr>pending = [DataEv [1, 2],
                                                     ErrorEv (Error ''socket hang up'')],
                                         endEmitted = False\<rparr>\<rparr>"
      "[[1, 2]]" "Error ''socket hang up''" "[]"]
    processHttpPassthrough_chunks [of
      "(example_response 200)\<lparr>data := \<lparr>pending = [DataEv [1, 2], EndEv],
                                         endEmitted = False\<rparr>\<rparr>"
      "[[1, 2]]" "[]" "[1, 2]"]
  by simp

text \<open>
  Claim C9. For every buffer \<open>buf\<close> and every string \<open>mimetype\<close>, \<open>formatMediaResult\<close> returns
  an envelope whose content type is \<open>mimetype\<close> and whose stream holds the data, pushed once,
  followed by the end-of-stream sentinel: a reader gets exactly the bytes of \<open>buf\<close> and then
  the end, and the stream that the reading leaves behind yields no byte again.
\<close>

theorem formatMediaResult_envelope:
  "mediaContentType (formatMediaResult buf mimetype) = mimetype
 \<and> pending (media_value (formatMediaResult buf mimetype)) =
     (if buf = [] then [EndEv] else [DataEv buf, EndEv])
 \<and> read_stream (media_value (formatMediaResult buf mimetype)) =
     (buf, True, \<lparr>pending = [], endEmitted = True\<rparr>)
 \<and> read_stream \<lparr>pending = [], endEmitted = True\<rparr> =
     ([], True, \<lparr>pending = [], endEmitted = True\<rparr>)"
  by (simp add: formatMediaResult_def new_Readable_def read_stream_def pipe_def
      new_PassThrough_def write_chunk_def end_stream_def)

section \<open>The buffered pipe\<close>

text \<open>
  Whenever \<open>streamMediaFromRemoteThroughPipe\<close> resolves, it has written nothing to the hosting
  response: the drained buffer is dropped, and the data stream of the response, piped a second
  time, has no data left.
\<close>

lemma streamMediaFromRemoteThroughPipe_body:
  assumes "fst (streamMediaFromRemoteThroughPipe env uri externalService req filename) =
             Resolved req'"
  shows "written (res req') = written (res req)"
proof -
  obtain p cs where m: "streamMediaFromRemote env uri externalService = (p, cs)"
    by (cases "streamMediaFromRemote env uri externalService")
  obtain response where p: "p = Resolved response"
    using assms m by (cases p) (simp_all add: streamMediaFromRemoteThroughPipe_def await_def)
  obtain drained response' where d: "processHttpPassthrough response = (drained, response')"
    by (cases "processHttpPassthrough response")
  obtain buf where b: "drained = Resolved buf"
    using assms m p d
    by (cases drained) (simp_all add: streamMediaFromRemoteThroughPipe_def await_def)
  have e: "endEmitted (data response')"
    using drained_data d b by simp
  show ?thesis
    using assms m p d b e
    by (cases "truthy_string filename")
      (auto simp: streamMediaFromRemoteThroughPipe_def await_def resolved_def pipe_def
        setHeader_def end_stream_def Let_def)
qed

text \<open>
  Claim C1, evaluated. The transport answers the fetch of \<open>/file\<close> with a response whose stream
  emits the chunks 1, 2 and 3; draining that response gives the buffer 1, 2, 3, which is what the
  to-buffer adapter returns. The buffered-pipe adapter sets both headers and ends the hosting
  response, and the bytes it has written to it are none: they do not equal the drained buffer.
\<close>

theorem streamMediaFromRemoteThroughPipe_drops_buffer:
  "fst (streamMediaFromRemote example_env ''/file'' ''MediaAPI'') =
     Resolved (example_response 200) \<and>
   fst (processHttpPassthrough (example_response 200)) = Resolved [1, 2, 3] \<and>
   fst (streamMediaFromRemoteThroughPipe example_env ''/file'' ''MediaAPI'' example_req
          (Some ''a.png'')) =
     Resolved \<lparr>res = \<lparr>written = [], ended = True,
                        headers_set = [(''Content-Type'', Some ''image/png''),
                                       (''Content-Disposition'', Some ''filename=a.png'')]\<rparr>\<rparr> \<and>
   fst (streamMediaFromRemoteServiceToBuffer example_env ''/file'' ''MediaAPI'') =
     Resolved [1, 2, 3]"
proof -
  note g = example_fetch_file and d = example_drain
  have h: "headers (example_response 200) INBOUND_CONTENT_TYPE = Some ''image/png''"
    by (simp add: example_response_def INBOUND_CONTENT_TYPE_def)
  have t: "fst (streamMediaFromRemoteThroughPipe example_env ''/file'' ''MediaAPI'' example_req
                  (Some ''a.png'')) =
           Resolved \<lparr>res = \<lparr>written = [], ended = True,
                              headers_set = [(''Content-Type'', Some ''image/png''),
                                             (''Content-Disposition'',
                                              Some ''filename=a.png'')]\<rparr>\<rparr>"
    by (simp add: streamMediaFromRemoteThroughPipe_def g d h await_def resolved_def pipe_def
        setHeader_def end_stream_def example_req_def
        OUTBOUND_CONTENT_TYPE_def CONTENT_DISPOSITION_def)
  have b: "fst (streamMediaFromRemoteServiceToBuffer example_env ''/file'' ''MediaAPI'') =
             Resolved [1, 2, 3]"
    by (simp add: streamMediaFromRemoteServiceToBuffer_def g d await_def)
  show ?thesis using g d t b by simp
qed

end
